theory Spec2Isabelle
  imports Main
begin

section \<open>Data model of src/helpers/update-tasks.ts\<close>

text \<open>
  Instants (luxon \<^verbatim>\<open>DateTime\<close> values, ISO strings of the database, JS dates) are
  epoch milliseconds. The stored strings are taken to parse: an invalid date is not
  modelled. A threshold is a number of minutes, as \<^verbatim>\<open>plus({ minutes: ... })\<close> reads it.
\<close>

type_synonym instant = int

text \<open>\<^verbatim>\<open>Database["public"]["Tables"]["repositories"]["Row"]\<close>; \<open>last_reminder = None\<close>
  is the SQL null.\<close>

record row =
  url :: string
  deadline :: instant
  last_check :: instant
  last_reminder :: "instant option"

text \<open>The result of \<^verbatim>\<open>parseGitHubUrl\<close>.\<close>

record locator =
  owner :: string
  repo :: string
  issue_number :: nat

text \<open>An element of a page of \<^verbatim>\<open>octokit.rest.issues.listEvents\<close>: \<^verbatim>\<open>o.actor.login\<close> and
  \<^verbatim>\<open>o.created_at\<close>.\<close>

record issue_event =
  actor_login :: string
  created_at :: instant

text \<open>The data of \<^verbatim>\<open>octokit.issues.get\<close>: \<^verbatim>\<open>assignees\<close> may be missing, and an
  assignee may be null; otherwise it carries its login.\<close>

record github_issue =
  assignees :: "string option list option"

text \<open>What a call of a collaborator throws.\<close>

datatype error = InvalidUrl | ListEventsFailed | IssueGetFailed | CreateCommentFailed
  | RemoveAssigneesFailed

text \<open>The object given to \<^verbatim>\<open>supabase.repositories.upsert\<close>. Both call sites write
  \<^verbatim>\<open>url\<close>, \<^verbatim>\<open>deadline\<close> and \<^verbatim>\<open>lastCheck\<close>; \<open>ua_lastReminder = None\<close> is an object
  literal without the key \<^verbatim>\<open>lastReminder\<close>.\<close>

record upsert_arg =
  ua_url :: string
  ua_deadline :: instant
  ua_lastReminder :: "instant option"
  ua_lastCheck :: instant

text \<open>The side-effecting calls that went through, in the order they were made.\<close>

datatype call =
    Upsert upsert_arg
  | Delete string
  | CreateComment locator string
  | RemoveAssignees locator "string list"

text \<open>The logger's lines, one constructor per call site (the dates of two messages are
  kept as instants, not formatted).\<close>

datatype message =
    UnassignThresholdDisabled
  | PassedDeadline string
  | ReminderThresholdDisabled
  | ShouldSendReminder string bool
  | ActivityFound string instant instant
  | NothingToDo string instant instant instant
  | NoWatchedRepos
  | MissingAssignees string
  | CouldNotGetIssue string

datatype log_entry = LogInfo message | LogWarn message | LogError message

text \<open>
  \<^verbatim>\<open>Context\<close>: the two thresholds of \<^verbatim>\<open>config\<close>, \<^verbatim>\<open>payload.issue?.assignees\<close> (\<open>None\<close> when
  the payload has no issue or the issue no assignees array), and the collaborators the
  file calls but does not define: \<^verbatim>\<open>parseGitHubUrl\<close> (may throw), the paginated
  \<^verbatim>\<open>listEvents\<close> (the pages, or a throw), \<^verbatim>\<open>issues.get\<close>, \<^verbatim>\<open>createComment\<close> and
  \<^verbatim>\<open>removeAssignees\<close> (\<open>None\<close>: the call went through), and the clock: \<open>clock c n\<close> is
  what the \<open>n\<close>-th call of \<^verbatim>\<open>DateTime.now()\<close> returns.
\<close>

record Context =
  unassignUserThreshold :: int
  sendRemindersThreshold :: int
  payload_assignees :: "string option list option"
  parseGitHubUrl :: "string \<Rightarrow> error + locator"
  listEvents :: "locator \<Rightarrow> error + issue_event list list"
  issues_get :: "locator \<Rightarrow> error + github_issue"
  createComment :: "locator \<Rightarrow> string \<Rightarrow> error option"
  removeAssignees :: "locator \<Rightarrow> string list \<Rightarrow> error option"
  clock :: "nat \<Rightarrow> instant"

text \<open>The state a pass threads: how many times the clock was read, the table of the
  Watch Store, the calls made and the lines logged.\<close>

record state =
  ticks :: nat
  store :: "row list"
  calls :: "call list"
  logs :: "log_entry list"

type_synonym 'a result = "(error + 'a) \<times> state"

section \<open>The Watch Store\<close>

text \<open>
  Modelled from the spec: the adapter behind \<^verbatim>\<open>supabase.repositories\<close> (\<^verbatim>\<open>get\<close>,
  \<^verbatim>\<open>upsert\<close>, \<^verbatim>\<open>delete\<close>) is not among the sources. The spec asks for one record per
  url, a keyed upsert by url and a delete by url. The upsert writes the fields it is given
  and leaves a field it is not given as it is in the stored record; a record of a new url
  is added at the end. The calls of the store are taken not to throw.
\<close>

definition upsert_row :: "upsert_arg \<Rightarrow> row \<Rightarrow> row" where
  "upsert_row a r =
     r\<lparr>deadline := ua_deadline a,
       last_check := ua_lastCheck a,
       last_reminder := (case ua_lastReminder a of None \<Rightarrow> last_reminder r | Some t \<Rightarrow> Some t)\<rparr>"

definition upsert_rows :: "upsert_arg \<Rightarrow> row list \<Rightarrow> row list" where
  "upsert_rows a rs =
     (if ua_url a \<in> set (map url rs)
      then map (\<lambda>r. if url r = ua_url a then upsert_row a r else r) rs
      else rs @ [\<lparr>url = ua_url a, deadline = ua_deadline a, last_check = ua_lastCheck a,
                  last_reminder = ua_lastReminder a\<rparr>])"

definition delete_rows :: "string \<Rightarrow> row list \<Rightarrow> row list" where
  "delete_rows u rs = filter (\<lambda>r. url r \<noteq> u) rs"

definition supabase_upsert :: "upsert_arg \<Rightarrow> state \<Rightarrow> state" where
  "supabase_upsert a st =
     st\<lparr>store := upsert_rows a (store st), calls := calls st @ [Upsert a]\<rparr>"

definition supabase_delete :: "string \<Rightarrow> state \<Rightarrow> state" where
  "supabase_delete u st =
     st\<lparr>store := delete_rows u (store st), calls := calls st @ [Delete u]\<rparr>"

section \<open>The functions of update-tasks.ts\<close>

definition dateTimeNow :: "Context \<Rightarrow> state \<Rightarrow> instant \<times> state" where
  "dateTimeNow ctx st = (clock ctx (ticks st), st\<lparr>ticks := Suc (ticks st)\<rparr>)"

definition logger :: "log_entry \<Rightarrow> state \<Rightarrow> state" where
  "logger m st = st\<lparr>logs := logs st @ [m]\<rparr>"

text \<open>\<^verbatim>\<open>plus({ minutes: n })\<close> on an instant in milliseconds.\<close>

definition plus_minutes :: "instant \<Rightarrow> int \<Rightarrow> instant" where
  "plus_minutes t n = t + 60000 * n"

text \<open>\<^verbatim>\<open>payload.issue?.assignees?.find((assignee) => assignee?.login === login)\<close>, as a
  truth value: a null assignee matches no login.\<close>

definition assignee_found :: "string option list option \<Rightarrow> string \<Rightarrow> bool" where
  "assignee_found as l =
     (case as of None \<Rightarrow> False | Some xs \<Rightarrow> find (\<lambda>a. a = Some l) xs \<noteq> None)"

text \<open>The filter given to \<^verbatim>\<open>octokit.paginate\<close>, applied to every page.\<close>

definition activity_filter :: "Context \<Rightarrow> row \<Rightarrow> issue_event \<Rightarrow> bool" where
  "activity_filter ctx issue o_ev =
     (assignee_found (payload_assignees ctx) (actor_login o_ev)
      \<and> last_check issue \<le> created_at o_ev)"

definition getAssigneesActivityForIssue :: "Context \<Rightarrow> row \<Rightarrow> error + issue_event list" where
  "getAssigneesActivityForIssue ctx issue =
     (case parseGitHubUrl ctx (url issue) of
        Inl e \<Rightarrow> Inl e
      | Inr loc \<Rightarrow>
          (case listEvents ctx loc of
             Inl e \<Rightarrow> Inl e
           | Inr pages \<Rightarrow> Inr (concat (map (filter (activity_filter ctx issue)) pages))))"

text \<open>The \<^verbatim>\<open>try\<close> covers the call of \<^verbatim>\<open>issues.get\<close> only: a throw of \<^verbatim>\<open>parseGitHubUrl\<close>
  leaves the function, a throw of \<^verbatim>\<open>issues.get\<close> is logged and gives null.\<close>

definition getGithubIssue :: "Context \<Rightarrow> row \<Rightarrow> state \<Rightarrow> github_issue option result" where
  "getGithubIssue ctx issue st =
     (case parseGitHubUrl ctx (url issue) of
        Inl e \<Rightarrow> (Inl e, st)
      | Inr loc \<Rightarrow>
          (case issues_get ctx loc of
             Inl e \<Rightarrow> (Inr None, logger (LogError (CouldNotGetIssue (url issue))) st)
           | Inr data \<Rightarrow> (Inr (Some data), st)))"

text \<open>\<^verbatim>\<open>!githubIssue?.assignees?.length\<close>\<close>

definition no_assignees :: "github_issue option \<Rightarrow> bool" where
  "no_assignees gi =
     (case gi of
        None \<Rightarrow> True
      | Some i \<Rightarrow> (case assignees i of None \<Rightarrow> True | Some xs \<Rightarrow> xs = []))"

text \<open>\<^verbatim>\<open>githubIssue.assignees.map((o) => o?.login).filter((o) => !!o)\<close>: the logins
  that are neither missing nor empty.\<close>

definition assignee_logins :: "github_issue option \<Rightarrow> string list" where
  "assignee_logins gi =
     (case gi of
        None \<Rightarrow> []
      | Some i \<Rightarrow>
          (case assignees i of
             None \<Rightarrow> []
           | Some xs \<Rightarrow> filter (\<lambda>l. l \<noteq> []) (List.map_filter (\<lambda>a. a) xs)))"

text \<open>\<^verbatim>\<open>Array.prototype.join\<close>\<close>

fun join :: "string \<Rightarrow> string list \<Rightarrow> string" where
  "join sep [] = []"
| "join sep [x] = x"
| "join sep (x # y # ys) = x @ sep @ join sep (y # ys)"

definition reminder_body :: "string list \<Rightarrow> string" where
  "reminder_body ls =
     ''@'' @ join '', @'' ls @ '', this task has been idle for a while. Please provide an update.''"

definition remindAssignees :: "Context \<Rightarrow> row \<Rightarrow> state \<Rightarrow> bool result" where
  "remindAssignees ctx issue st =
     (case getGithubIssue ctx issue st of
        (Inl e, s) \<Rightarrow> (Inl e, s)
      | (Inr githubIssue, s) \<Rightarrow>
          (case parseGitHubUrl ctx (url issue) of
             Inl e \<Rightarrow> (Inl e, s)
           | Inr loc \<Rightarrow>
               if no_assignees githubIssue
               then (Inr False, logger (LogWarn (MissingAssignees (url issue))) s)
               else
                 (case createComment ctx loc (reminder_body (assignee_logins githubIssue)) of
                    Some e \<Rightarrow> (Inl e, s)
                  | None \<Rightarrow>
                      (Inr True,
                       s\<lparr>calls := calls s @
                           [CreateComment loc (reminder_body (assignee_logins githubIssue))]\<rparr>))))"

definition removeIdleAssignees :: "Context \<Rightarrow> row \<Rightarrow> state \<Rightarrow> bool result" where
  "removeIdleAssignees ctx issue st =
     (case getGithubIssue ctx issue st of
        (Inl e, s) \<Rightarrow> (Inl e, s)
      | (Inr githubIssue, s) \<Rightarrow>
          (case parseGitHubUrl ctx (url issue) of
             Inl e \<Rightarrow> (Inl e, s)
           | Inr loc \<Rightarrow>
               if no_assignees githubIssue
               then (Inr False, logger (LogWarn (MissingAssignees (url issue))) s)
               else
                 (case removeAssignees ctx loc (assignee_logins githubIssue) of
                    Some e \<Rightarrow> (Inl e, s)
                  | None \<Rightarrow>
                      (Inr True,
                       s\<lparr>calls := calls s @
                           [RemoveAssignees loc (assignee_logins githubIssue)]\<rparr>))))"

definition unassignUserFromIssue :: "Context \<Rightarrow> row \<Rightarrow> state \<Rightarrow> unit result" where
  "unassignUserFromIssue ctx issue st =
     (if unassignUserThreshold ctx \<le> 0
      then (Inr (), logger (LogInfo UnassignThresholdDisabled) st)
      else
        (case removeIdleAssignees ctx issue (logger (LogInfo (PassedDeadline (url issue))) st) of
           (Inl e, s) \<Rightarrow> (Inl e, s)
         | (Inr removed, s) \<Rightarrow> (Inr (), if removed then supabase_delete (url issue) s else s)))"

definition remindAssigneesForIssue :: "Context \<Rightarrow> row \<Rightarrow> state \<Rightarrow> unit result" where
  "remindAssigneesForIssue ctx issue st =
     (case dateTimeNow ctx st of
        (now, st1) \<Rightarrow>
          if sendRemindersThreshold ctx \<le> 0
          then (Inr (), logger (LogInfo ReminderThresholdDisabled) st1)
          else
            (let st2 = logger (LogInfo (ShouldSendReminder (url issue)
                                          (last_reminder issue = None))) st1
             in if last_reminder issue = None
                then
                  (case remindAssignees ctx issue st2 of
                     (Inl e, s) \<Rightarrow> (Inl e, s)
                   | (Inr reminded, s) \<Rightarrow>
                       (Inr (),
                        if reminded
                        then supabase_upsert
                               \<lparr>ua_url = url issue, ua_deadline = deadline issue,
                                ua_lastReminder = Some now, ua_lastCheck = now\<rparr> s
                        else s))
                else (Inr (), st2)))"

definition updateReminders :: "Context \<Rightarrow> row \<Rightarrow> state \<Rightarrow> unit result" where
  "updateReminders ctx issue st =
     (case dateTimeNow ctx st of
        (now, st1) \<Rightarrow>
          (case getAssigneesActivityForIssue ctx issue of
             Inl e \<Rightarrow> (Inl e, st1)
           | Inr activity \<Rightarrow>
               (let deadlineWithThreshold = plus_minutes (deadline issue) (unassignUserThreshold ctx);
                    reminderWithThreshold = plus_minutes (deadline issue) (sendRemindersThreshold ctx)
                in if activity \<noteq> []
                   then
                     (let timeDiff = now - last_check issue;
                          newDeadline = deadline issue + timeDiff
                      in (Inr (),
                          supabase_upsert
                            \<lparr>ua_url = url issue, ua_deadline = newDeadline,
                             ua_lastReminder = None, ua_lastCheck = now\<rparr>
                            (logger (LogInfo (ActivityFound (url issue) (deadline issue) newDeadline))
                               st1)))
                   else if deadlineWithThreshold \<le> now
                   then unassignUserFromIssue ctx issue st1
                   else if reminderWithThreshold \<le> now
                   then remindAssigneesForIssue ctx issue st1
                   else
                     (Inr (),
                      logger (LogInfo (NothingToDo (url issue) now reminderWithThreshold
                                         deadlineWithThreshold)) st1))))"

text \<open>The \<^verbatim>\<open>for ... of\<close> loop of \<^verbatim>\<open>updateTasks\<close>: there is no \<^verbatim>\<open>try\<close> around the
  awaited call, so a throw leaves the loop.\<close>

fun updateTasks_loop :: "Context \<Rightarrow> row list \<Rightarrow> state \<Rightarrow> unit result" where
  "updateTasks_loop ctx [] st = (Inr (), st)"
| "updateTasks_loop ctx (watchedIssue # rest) st =
     (case updateReminders ctx watchedIssue st of
        (Inl e, s) \<Rightarrow> (Inl e, s)
      | (Inr _, s) \<Rightarrow> updateTasks_loop ctx rest s)"

definition updateTasks :: "Context \<Rightarrow> state \<Rightarrow> bool result" where
  "updateTasks ctx st =
     (let watchedRepoList = store st
      in if watchedRepoList = []
         then (Inr False, logger (LogInfo NoWatchedRepos) st)
         else
           (case updateTasks_loop ctx watchedRepoList st of
              (Inl e, s) \<Rightarrow> (Inl e, s)
            | (Inr _, s) \<Rightarrow> (Inr True, s)))"

section \<open>Observations on a run\<close>

text \<open>What an evaluation added to the calls and to the log of the state it started from.\<close>

definition new_calls :: "state \<Rightarrow> state \<Rightarrow> call list" where
  "new_calls st st' = drop (length (calls st)) (calls st')"

definition new_logs :: "state \<Rightarrow> state \<Rightarrow> log_entry list" where
  "new_logs st st' = drop (length (logs st)) (logs st')"

fun is_reminder :: "call \<Rightarrow> bool" where
  "is_reminder (CreateComment _ _) = True"
| "is_reminder _ = False"

fun is_unassignment :: "call \<Rightarrow> bool" where
  "is_unassignment (RemoveAssignees _ _) = True"
| "is_unassignment _ = False"

text \<open>The keys of the object literal given to the upsert.\<close>

definition written_fields :: "upsert_arg \<Rightarrow> string list" where
  "written_fields a =
     [''url'', ''deadline'']
     @ (case ua_lastReminder a of None \<Rightarrow> [] | Some _ \<Rightarrow> [''lastReminder''])
     @ [''lastCheck'']"

text \<open>What the assignee resolver gives an executor: null when \<^verbatim>\<open>issues.get\<close> throws.\<close>

definition resolved_issue :: "Context \<Rightarrow> locator \<Rightarrow> github_issue option" where
  "resolved_issue ctx loc = (case issues_get ctx loc of Inl _ \<Rightarrow> None | Inr d \<Rightarrow> Some d)"

text \<open>The object of the upsert after activity (the call in \<^verbatim>\<open>updateReminders\<close>), for an
  evaluation that starts in \<open>st\<close>, and the object of the upsert after a reminder (the call in
  \<^verbatim>\<open>remindAssigneesForIssue\<close>), for a call that starts in \<open>st\<close>.\<close>

definition activity_upsert :: "Context \<Rightarrow> row \<Rightarrow> state \<Rightarrow> upsert_arg" where
  "activity_upsert ctx issue st =
     \<lparr>ua_url = url issue,
      ua_deadline = deadline issue + (clock ctx (ticks st) - last_check issue),
      ua_lastReminder = None, ua_lastCheck = clock ctx (ticks st)\<rparr>"

definition reminder_upsert :: "Context \<Rightarrow> row \<Rightarrow> state \<Rightarrow> upsert_arg" where
  "reminder_upsert ctx issue st =
     \<lparr>ua_url = url issue, ua_deadline = deadline issue,
      ua_lastReminder = Some (clock ctx (ticks st)), ua_lastCheck = clock ctx (ticks st)\<rparr>"

section \<open>Example data\<close>

text \<open>
  Watched issues with deadline \<open>D = 0\<close> (two of them in the store), and the configuration of the spec's scenarios:
  reminder after 60 minutes, disqualification after 120. In \<open>scenario\<close> the clock reads
  \<open>D + 90\<close> minutes (and a millisecond more at each reading), nobody has been active,
  the issues have the assignee alice, and every call of a collaborator goes through.
\<close>

definition url1 :: string where
  "url1 = ''https://github.com/o/r/issues/1''"

definition url2 :: string where
  "url2 = ''https://github.com/o/r/issues/2''"

definition loc1 :: locator where
  "loc1 = \<lparr>owner = ''o'', repo = ''r'', issue_number = 1\<rparr>"

definition loc2 :: locator where
  "loc2 = \<lparr>owner = ''o'', repo = ''r'', issue_number = 2\<rparr>"

definition issue1 :: row where
  "issue1 = \<lparr>url = url1, deadline = 0, last_check = - 300000, last_reminder = None\<rparr>"

definition issue2 :: row where
  "issue2 = \<lparr>url = url2, deadline = 0, last_check = 0, last_reminder = None\<rparr>"

definition url3 :: string where
  "url3 = ''https://github.com/o/r/issues/3''"

definition loc3 :: locator where
  "loc3 = \<lparr>owner = ''o'', repo = ''r'', issue_number = 3\<rparr>"

definition issue3 :: row where
  "issue3 = \<lparr>url = url3, deadline = 0, last_check = 0, last_reminder = None\<rparr>"

definition example_parse :: "string \<Rightarrow> error + locator" where
  "example_parse u =
     (if u = url1 then Inr loc1
      else if u = url2 then Inr loc2
      else if u = url3 then Inr loc3
      else Inl InvalidUrl)"

definition alice_event :: issue_event where
  "alice_event = \<lparr>actor_login = ''alice'', created_at = 600000\<rparr>"

definition scenario :: Context where
  "scenario =
     \<lparr>unassignUserThreshold = 120,
      sendRemindersThreshold = 60,
      payload_assignees = Some [Some ''alice''],
      parseGitHubUrl = example_parse,
      listEvents = (\<lambda>_. Inr []),
      issues_get = (\<lambda>_. Inr \<lparr>assignees = Some [Some ''alice'']\<rparr>),
      createComment = (\<lambda>_ _. None),
      removeAssignees = (\<lambda>_ _. None),
      clock = (\<lambda>n. 5400000 + int n)\<rparr>"

definition start :: state where
  "start = \<lparr>ticks = 0, store = [issue1, issue2], calls = [], logs = []\<rparr>"

text \<open>Variations of the scenario: disqualification disabled and the clock far past the
  deadline; the event listing of the first issue failing while the second issue has
  activity; disqualification disabled with the clock past both instants; an issue without
  assignees; the assignee resolver failing; a payload whose issue is assigned to bob while
  the watched issue is assigned to alice.\<close>

definition bob_event :: issue_event where
  "bob_event = \<lparr>actor_login = ''bob'', created_at = 600000\<rparr>"

definition disqualify_disabled :: Context where
  "disqualify_disabled =
     scenario\<lparr>unassignUserThreshold := 0, clock := \<lambda>n. 6000000000 + int n\<rparr>"

definition first_listing_fails :: Context where
  "first_listing_fails =
     scenario\<lparr>listEvents :=
       \<lambda>l. if l = loc1 then Inl ListEventsFailed else Inr [[alice_event]]\<rparr>"

definition disqualify_zero_past_both :: Context where
  "disqualify_zero_past_both =
     scenario\<lparr>unassignUserThreshold := 0, clock := \<lambda>n. 9000000 + int n\<rparr>"

definition nobody_assigned :: Context where
  "nobody_assigned = scenario\<lparr>issues_get := \<lambda>_. Inr \<lparr>assignees = Some []\<rparr>\<rparr>"

definition resolver_fails :: Context where
  "resolver_fails = scenario\<lparr>issues_get := \<lambda>_. Inl IssueGetFailed\<rparr>"

definition payload_of_bob :: Context where
  "payload_of_bob =
     scenario\<lparr>payload_assignees := Some [Some ''bob''],
               listEvents := \<lambda>_. Inr [[alice_event, bob_event]]\<rparr>"

text \<open>A payload without an issue (a push, say), while alice, the assignee of the watched
  issue, has been active since the last check and the clock is past the disqualification
  instant.\<close>

definition payload_without_issue :: Context where
  "payload_without_issue =
     scenario\<lparr>payload_assignees := None,
               listEvents := \<lambda>_. Inr [[alice_event]],
               clock := \<lambda>n. 9000000 + int n\<rparr>"

section \<open>What each function can do\<close>

lemma no_assignees_None [simp]: "no_assignees None"
  by (simp add: no_assignees_def)

lemma getGithubIssue_ok:
  "parseGitHubUrl ctx (url issue) = Inr loc \<Longrightarrow>
   getGithubIssue ctx issue st =
     (Inr (resolved_issue ctx loc),
      case issues_get ctx loc of
        Inl _ \<Rightarrow> logger (LogError (CouldNotGetIssue (url issue))) st
      | Inr _ \<Rightarrow> st)"
  by (simp add: getGithubIssue_def resolved_issue_def split: sum.splits)

lemma getGithubIssue_invalid:
  "parseGitHubUrl ctx (url issue) = Inl e \<Longrightarrow> getGithubIssue ctx issue st = (Inl e, st)"
  by (simp add: getGithubIssue_def)

lemma remindAssignees_invalid:
  "parseGitHubUrl ctx (url issue) = Inl e \<Longrightarrow> remindAssignees ctx issue st = (Inl e, st)"
  by (simp add: remindAssignees_def getGithubIssue_invalid)

lemma removeIdleAssignees_invalid:
  "parseGitHubUrl ctx (url issue) = Inl e \<Longrightarrow> removeIdleAssignees ctx issue st = (Inl e, st)"
  by (simp add: removeIdleAssignees_def getGithubIssue_invalid)

lemma remindAssignees_outcomes:
  assumes "remindAssignees ctx issue st = (r, s)"
  shows "store s = store st \<and> ticks s = ticks st \<and>
     (\<exists>ls. logs s = logs st @ ls \<and>
        ((r = Inr True \<and> (\<exists>loc. parseGitHubUrl ctx (url issue) = Inr loc \<and>
             calls s = calls st @ [CreateComment loc (reminder_body (assignee_logins (resolved_issue ctx loc)))])
           \<and> LogWarn (MissingAssignees (url issue)) \<notin> set ls)
         \<or> (r \<noteq> Inr True \<and> calls s = calls st)))"
proof (cases "parseGitHubUrl ctx (url issue)")
  case (Inl e)
  with assms show ?thesis by (auto simp: remindAssignees_invalid)
next
  case (Inr loc)
  with assms show ?thesis
    by (auto simp: remindAssignees_def getGithubIssue_ok logger_def
        split: sum.splits option.splits if_splits)
qed

lemma removeIdleAssignees_outcomes:
  assumes "removeIdleAssignees ctx issue st = (r, s)"
  shows "store s = store st \<and> ticks s = ticks st \<and>
     (\<exists>ls. logs s = logs st @ ls \<and>
        ((r = Inr True \<and> (\<exists>loc. parseGitHubUrl ctx (url issue) = Inr loc \<and>
             calls s = calls st @ [RemoveAssignees loc (assignee_logins (resolved_issue ctx loc))])
           \<and> LogWarn (MissingAssignees (url issue)) \<notin> set ls)
         \<or> (r \<noteq> Inr True \<and> calls s = calls st)))"
proof (cases "parseGitHubUrl ctx (url issue)")
  case (Inl e)
  with assms show ?thesis by (auto simp: removeIdleAssignees_invalid)
next
  case (Inr loc)
  with assms show ?thesis
    by (auto simp: removeIdleAssignees_def getGithubIssue_ok logger_def
        split: sum.splits option.splits if_splits)
qed


lemma unassignUserFromIssue_outcomes:
  assumes "unassignUserFromIssue ctx issue st = (r, s)"
  shows "ticks s = ticks st \<and>
     (\<exists>ls. logs s = logs st @ ls \<and>
        ((calls s = calls st \<and> store s = store st)
         \<or> (r = Inr () \<and> 0 < unassignUserThreshold ctx
             \<and> LogWarn (MissingAssignees (url issue)) \<notin> set ls
             \<and> (\<exists>loc. parseGitHubUrl ctx (url issue) = Inr loc \<and>
                   calls s = calls st @
                     [RemoveAssignees loc (assignee_logins (resolved_issue ctx loc)),
                      Delete (url issue)])
             \<and> store s = delete_rows (url issue) (store st))))"
proof (cases "unassignUserThreshold ctx \<le> 0")
  case True
  with assms show ?thesis
    by (auto simp: unassignUserFromIssue_def logger_def)
next
  case False
  obtain r1 s1 where e: "removeIdleAssignees ctx issue
      (logger (LogInfo (PassedDeadline (url issue))) st) = (r1, s1)"
    by (cases "removeIdleAssignees ctx issue (logger (LogInfo (PassedDeadline (url issue))) st)")
  from removeIdleAssignees_outcomes [OF e] e assms False show ?thesis
    by (auto simp: unassignUserFromIssue_def logger_def supabase_delete_def
        split: sum.splits if_splits)
qed

lemma remindAssigneesForIssue_outcomes:
  assumes "remindAssigneesForIssue ctx issue st = (r, s)"
  shows "ticks s = Suc (ticks st) \<and>
     (\<exists>ls. logs s = logs st @ ls \<and>
        ((calls s = calls st \<and> store s = store st)
         \<or> (r = Inr () \<and> 0 < sendRemindersThreshold ctx \<and> last_reminder issue = None
             \<and> LogWarn (MissingAssignees (url issue)) \<notin> set ls
             \<and> (\<exists>loc. parseGitHubUrl ctx (url issue) = Inr loc \<and>
                   calls s = calls st @
                     [CreateComment loc (reminder_body (assignee_logins (resolved_issue ctx loc))),
                      Upsert (reminder_upsert ctx issue st)])
             \<and> store s = upsert_rows (reminder_upsert ctx issue st) (store st))))"
proof (cases "sendRemindersThreshold ctx \<le> 0 \<or> last_reminder issue \<noteq> None")
  case True
  with assms show ?thesis
    by (auto simp: remindAssigneesForIssue_def dateTimeNow_def logger_def Let_def
        split: if_splits)
next
  case False
  obtain r1 s1 where e: "remindAssignees ctx issue
      (logger (LogInfo (ShouldSendReminder (url issue) True)) (st\<lparr>ticks := Suc (ticks st)\<rparr>))
      = (r1, s1)"
    by (cases "remindAssignees ctx issue
      (logger (LogInfo (ShouldSendReminder (url issue) True)) (st\<lparr>ticks := Suc (ticks st)\<rparr>))")
  from remindAssignees_outcomes [OF e] e assms False show ?thesis
    by (auto simp: remindAssigneesForIssue_def dateTimeNow_def logger_def Let_def
        supabase_upsert_def reminder_upsert_def split: sum.splits if_splits)
qed



lemma updateReminders_throw:
  "getAssigneesActivityForIssue ctx issue = Inl e \<Longrightarrow>
   updateReminders ctx issue st = (Inl e, st\<lparr>ticks := Suc (ticks st)\<rparr>)"
  by (simp add: updateReminders_def dateTimeNow_def)

lemma updateReminders_activity:
  assumes "getAssigneesActivityForIssue ctx issue = Inr activity" and "activity \<noteq> []"
  shows "updateReminders ctx issue st =
     (Inr (),
      supabase_upsert (activity_upsert ctx issue st)
        (logger (LogInfo (ActivityFound (url issue) (deadline issue)
                            (deadline issue + (clock ctx (ticks st) - last_check issue))))
           (st\<lparr>ticks := Suc (ticks st)\<rparr>)))"
  using assms by (simp add: updateReminders_def dateTimeNow_def Let_def activity_upsert_def)

lemma updateReminders_idle:
  assumes "getAssigneesActivityForIssue ctx issue = Inr []"
  shows "updateReminders ctx issue st =
     (if plus_minutes (deadline issue) (unassignUserThreshold ctx) \<le> clock ctx (ticks st)
      then unassignUserFromIssue ctx issue (st\<lparr>ticks := Suc (ticks st)\<rparr>)
      else if plus_minutes (deadline issue) (sendRemindersThreshold ctx) \<le> clock ctx (ticks st)
      then remindAssigneesForIssue ctx issue (st\<lparr>ticks := Suc (ticks st)\<rparr>)
      else (Inr (), logger (LogInfo (NothingToDo (url issue) (clock ctx (ticks st))
              (plus_minutes (deadline issue) (sendRemindersThreshold ctx))
              (plus_minutes (deadline issue) (unassignUserThreshold ctx))))
              (st\<lparr>ticks := Suc (ticks st)\<rparr>)))"
  using assms by (simp add: updateReminders_def dateTimeNow_def Let_def)

lemma updateReminders_outcomes:
  assumes "updateReminders ctx issue st = (r, st')"
  shows "\<exists>ls. logs st' = logs st @ ls \<and>
     ((calls st' = calls st \<and> store st' = store st)
      \<or> (r = Inr () \<and> LogWarn (MissingAssignees (url issue)) \<notin> set ls
          \<and> (\<exists>a. getAssigneesActivityForIssue ctx issue = Inr a \<and> a \<noteq> [])
          \<and> calls st' = calls st @ [Upsert (activity_upsert ctx issue st)]
          \<and> store st' = upsert_rows (activity_upsert ctx issue st) (store st))
      \<or> (r = Inr () \<and> LogWarn (MissingAssignees (url issue)) \<notin> set ls
          \<and> getAssigneesActivityForIssue ctx issue = Inr []
          \<and> 0 < sendRemindersThreshold ctx \<and> last_reminder issue = None
          \<and> clock ctx (ticks st) < plus_minutes (deadline issue) (unassignUserThreshold ctx)
          \<and> plus_minutes (deadline issue) (sendRemindersThreshold ctx) \<le> clock ctx (ticks st)
          \<and> (\<exists>loc. parseGitHubUrl ctx (url issue) = Inr loc \<and>
                calls st' = calls st @
                  [CreateComment loc (reminder_body (assignee_logins (resolved_issue ctx loc))),
                   Upsert (reminder_upsert ctx issue (st\<lparr>ticks := Suc (ticks st)\<rparr>))])
          \<and> store st' =
              upsert_rows (reminder_upsert ctx issue (st\<lparr>ticks := Suc (ticks st)\<rparr>)) (store st))
      \<or> (r = Inr () \<and> LogWarn (MissingAssignees (url issue)) \<notin> set ls
          \<and> getAssigneesActivityForIssue ctx issue = Inr []
          \<and> 0 < unassignUserThreshold ctx
          \<and> plus_minutes (deadline issue) (unassignUserThreshold ctx) \<le> clock ctx (ticks st)
          \<and> (\<exists>loc. parseGitHubUrl ctx (url issue) = Inr loc \<and>
                calls st' = calls st @
                  [RemoveAssignees loc (assignee_logins (resolved_issue ctx loc)),
                   Delete (url issue)])
          \<and> store st' = delete_rows (url issue) (store st)))"
proof (cases "getAssigneesActivityForIssue ctx issue")
  case (Inl e)
  with assms show ?thesis by (auto simp: updateReminders_throw)
next
  case (Inr a)
  show ?thesis
  proof (cases "a = []")
    case False
    with Inr assms show ?thesis
      by (auto simp: updateReminders_activity supabase_upsert_def logger_def)
  next
    case True
    note idle = updateReminders_idle [of ctx issue st]
    let ?st1 = "st\<lparr>ticks := Suc (ticks st)\<rparr>"
    consider (unassign) "plus_minutes (deadline issue) (unassignUserThreshold ctx) \<le> clock ctx (ticks st)"
      | (remind) "\<not> plus_minutes (deadline issue) (unassignUserThreshold ctx) \<le> clock ctx (ticks st)"
          "plus_minutes (deadline issue) (sendRemindersThreshold ctx) \<le> clock ctx (ticks st)"
      | (nothing) "\<not> plus_minutes (deadline issue) (unassignUserThreshold ctx) \<le> clock ctx (ticks st)"
          "\<not> plus_minutes (deadline issue) (sendRemindersThreshold ctx) \<le> clock ctx (ticks st)"
      by blast
    then show ?thesis
    proof cases
      case unassign
      with idle Inr True assms have "unassignUserFromIssue ctx issue ?st1 = (r, st')" by simp
      from unassignUserFromIssue_outcomes [OF this] Inr True unassign show ?thesis
        by auto
    next
      case remind
      with idle Inr True assms have "remindAssigneesForIssue ctx issue ?st1 = (r, st')" by simp
      from remindAssigneesForIssue_outcomes [OF this] Inr True remind show ?thesis
        by auto
    next
      case nothing
      with idle Inr True assms show ?thesis by (auto simp: logger_def)
    qed
  qed
qed

lemma url_upsert_row [simp]: "url (upsert_row a r) = url r"
  by (simp add: upsert_row_def)

lemma upsert_rows_urls:
  "ua_url a \<in> set (map url rs) \<Longrightarrow> map url (upsert_rows a rs) = map url rs"
  by (simp add: upsert_rows_def)

lemma upsert_rows_keep_reminder:
  "ua_lastReminder a = None \<Longrightarrow> ua_url a \<in> set (map url rs) \<Longrightarrow>
   map last_reminder (upsert_rows a rs) = map last_reminder rs"
  by (simp add: upsert_rows_def upsert_row_def)

lemma upsert_rows_item:
  assumes "issue \<in> set rs" and "distinct (map url rs)" and "ua_url a = url issue"
  shows "upsert_rows a rs = map (\<lambda>r. if r = issue then upsert_row a issue else r) rs"
proof -
  have inj: "inj_on url (set rs)"
    using assms(2) by (simp add: distinct_map)
  have "\<And>r. r \<in> set rs \<Longrightarrow> (url r = url issue) = (r = issue)"
    using inj assms(1) by (auto dest: inj_onD)
  then have "map (\<lambda>r. if url r = ua_url a then upsert_row a r else r) rs
      = map (\<lambda>r. if r = issue then upsert_row a issue else r) rs"
    using assms(3) by (intro map_cong) auto
  moreover have "ua_url a \<in> set (map url rs)"
    using assms(1,3) by auto
  ultimately show ?thesis
    by (simp add: upsert_rows_def)
qed

lemma upsert_rows_written:
  assumes "r \<in> set (upsert_rows a rs)" and "url r = ua_url a"
  shows "deadline r = ua_deadline a \<and> last_check r = ua_lastCheck a
     \<and> (ua_lastReminder a \<noteq> None \<longrightarrow> last_reminder r = ua_lastReminder a)"
proof (cases "ua_url a \<in> set (map url rs)")
  case True
  with assms show ?thesis
    by (auto simp: upsert_rows_def upsert_row_def split: if_splits)
next
  case False
  with assms(2) have "r \<notin> set rs" by (metis imageI set_map)
  with False assms(1) show ?thesis
    by (auto simp: upsert_rows_def)
qed

lemma new_calls_append [simp]: "calls st' = calls st @ cs \<Longrightarrow> new_calls st st' = cs"
  by (simp add: new_calls_def)

lemma new_calls_same [simp]: "calls st' = calls st \<Longrightarrow> new_calls st st' = []"
  by (simp add: new_calls_def)

lemma new_logs_append [simp]: "logs st' = logs st @ ls \<Longrightarrow> new_logs st st' = ls"
  by (simp add: new_logs_def)

lemma upsert_rows_retains: "set (map url rs) \<subseteq> set (map url (upsert_rows a rs))"
proof (cases "ua_url a \<in> set (map url rs)")
  case True
  then show ?thesis by (simp only: upsert_rows_urls subset_refl)
next
  case False
  then show ?thesis by (auto simp: upsert_rows_def)
qed

lemma set_delete_rows: "x \<in> set (delete_rows u rs) \<longleftrightarrow> x \<in> set rs \<and> url x \<noteq> u"
  by (simp add: delete_rows_def)

lemma upsert_rows_retains_row:
  "x \<in> set rs \<Longrightarrow> url x \<in> url ` set (upsert_rows a rs)"
  using upsert_rows_retains [of rs a] by auto

lemma updateTasks_loop_append:
  "updateTasks_loop ctx xs st = (Inr (), st1) \<Longrightarrow>
   updateTasks_loop ctx (xs @ ys) st = updateTasks_loop ctx ys st1"
proof (induction xs arbitrary: st)
  case Nil
  then show ?case by simp
next
  case (Cons x xs)
  then show ?case
    by (cases "updateReminders ctx x st") (auto split: sum.splits)
qed

lemma upsert_rows_has: "ua_url a \<in> set (map url (upsert_rows a rs))"
proof (cases "ua_url a \<in> set (map url rs)")
  case True
  then show ?thesis by (simp only: upsert_rows_urls)
next
  case False
  then show ?thesis by (simp add: upsert_rows_def)
qed

lemma reminded_item_not_reminded_again:
  assumes "last_reminder row \<noteq> None"
  shows "\<not> (\<exists>c \<in> set (new_calls st2 (snd (updateReminders ctx2 row st2))). is_reminder c)"
proof -
  obtain r s where e: "updateReminders ctx2 row st2 = (r, s)"
    by (cases "updateReminders ctx2 row st2")
  from updateReminders_outcomes [OF e] assms e show ?thesis
    by (elim exE conjE disjE) auto
qed

text \<open>What the evaluation does when disqualification is disabled: at or past the deadline
  with an empty signal it only logs; and with a reminder threshold above 0 no evaluation, of
  any item in any state, posts a reminder.\<close>

lemma updateReminders_disqualification_disabled:
  assumes "unassignUserThreshold ctx = 0"
    and "getAssigneesActivityForIssue ctx issue = Inr []"
    and "deadline issue \<le> clock ctx (ticks st)"
  shows "updateReminders ctx issue st =
     (Inr (), logger (LogInfo UnassignThresholdDisabled) (st\<lparr>ticks := Suc (ticks st)\<rparr>))"
  using assms
  by (simp add: updateReminders_idle plus_minutes_def unassignUserFromIssue_def)

lemma no_reminder_when_disqualification_disabled:
  assumes "unassignUserThreshold ctx = 0" and "0 < sendRemindersThreshold ctx"
  shows "\<not> (\<exists>c \<in> set (new_calls st (snd (updateReminders ctx issue st))). is_reminder c)"
proof -
  obtain r s where e: "updateReminders ctx issue st = (r, s)"
    by (cases "updateReminders ctx issue st")
  from updateReminders_outcomes [OF e] assms e show ?thesis
    by (elim exE conjE disjE) (auto simp: plus_minutes_def)
qed

text \<open>What the filter of the activity signal computes.\<close>

lemma getAssigneesActivityForIssue_filter:
  assumes "parseGitHubUrl ctx (url issue) = Inr loc" and "listEvents ctx loc = Inr pages"
  shows "getAssigneesActivityForIssue ctx issue =
     Inr (filter (\<lambda>ev. Some (actor_login ev)
                          \<in> set (case payload_assignees ctx of None \<Rightarrow> [] | Some xs \<Rightarrow> xs)
                        \<and> last_check issue \<le> created_at ev)
            (concat pages))"
proof -
  have "assignee_found as l = (Some l \<in> set (case as of None \<Rightarrow> [] | Some xs \<Rightarrow> xs))" for as l
    by (cases as) (auto simp: assignee_found_def find_None_iff)
  then have "activity_filter ctx issue =
      (\<lambda>ev. Some (actor_login ev) \<in> set (case payload_assignees ctx of None \<Rightarrow> [] | Some xs \<Rightarrow> xs)
            \<and> last_check issue \<le> created_at ev)"
    by (simp add: activity_filter_def fun_eq_iff)
  with assms show ?thesis
    by (simp add: getAssigneesActivityForIssue_def filter_concat)
qed

section \<open>The claims\<close>

text \<open>
  C1. The claim is not what the code does. With the disqualification threshold 0, a reminder
  threshold of 60 minutes, no reminder sent yet, an empty activity signal, an assignee on the
  issue and the clock far past the deadline, the reminder is due, and
  \<^verbatim>\<open>remindAssigneesForIssue\<close> called on the item would post the comment and upsert
  \<open>lastReminder\<close>. The evaluation does not reach it: \<open>now \<ge> deadline + 0\<close> takes the first
  branch, \<^verbatim>\<open>unassignUserFromIssue\<close> only logs that the threshold is \<open>\<le> 0\<close>, and the reminder
  check is the \<^verbatim>\<open>else if\<close> of that branch. No call is made.
\<close>

theorem no_fall_through_to_reminder:
  "unassignUserThreshold disqualify_disabled = 0
   \<and> 0 < sendRemindersThreshold disqualify_disabled
   \<and> getAssigneesActivityForIssue disqualify_disabled issue1 = Inr []
   \<and> last_reminder issue1 = None
   \<and> plus_minutes (deadline issue1) (sendRemindersThreshold disqualify_disabled)
        \<le> clock disqualify_disabled (ticks start)
   \<and> new_calls start (snd (remindAssigneesForIssue disqualify_disabled issue1 start)) =
       [CreateComment loc1
          ''@alice, this task has been idle for a while. Please provide an update.'',
        Upsert \<lparr>ua_url = url1, ua_deadline = 0, ua_lastReminder = Some 6000000000,
                ua_lastCheck = 6000000000\<rparr>]
   \<and> new_calls start (snd (updateReminders disqualify_disabled issue1 start)) = []"
  by code_simp

text \<open>
  C2. When the fetched activity signal is not empty, the evaluation ends without error and
  makes one call, the upsert of \<open>deadline = old deadline + (now - lastCheck)\<close> and
  \<open>lastCheck = now\<close> (no \<open>lastReminder\<close> key), where \<open>now\<close> is the clock reading at the start of
  the evaluation. Nothing is assumed of the thresholds or of \<open>now\<close>: the branch comes before
  both threshold checks. In a store with one record per url that holds the item, the item's
  record becomes the item with these two fields changed and every other record is kept.
\<close>

theorem activity_moves_deadline:
  assumes "getAssigneesActivityForIssue ctx issue = Inr activity" and "activity \<noteq> []"
  shows "\<exists>st'. updateReminders ctx issue st = (Inr (), st')
     \<and> new_calls st st' =
         [Upsert \<lparr>ua_url = url issue,
                  ua_deadline = deadline issue + (clock ctx (ticks st) - last_check issue),
                  ua_lastReminder = None,
                  ua_lastCheck = clock ctx (ticks st)\<rparr>]
     \<and> (issue \<in> set (store st) \<and> distinct (map url (store st)) \<longrightarrow>
          store st' =
            map (\<lambda>r. if r = issue
                      then issue\<lparr>deadline := deadline issue + (clock ctx (ticks st) - last_check issue),
                                 last_check := clock ctx (ticks st)\<rparr>
                      else r) (store st))"
proof -
  let ?a = "activity_upsert ctx issue st"
  let ?new = "issue\<lparr>deadline := deadline issue + (clock ctx (ticks st) - last_check issue),
                     last_check := clock ctx (ticks st)\<rparr>"
  have row: "upsert_row ?a issue = ?new"
    by (simp add: upsert_row_def activity_upsert_def)
  have "upsert_rows ?a (store st) = map (\<lambda>r. if r = issue then ?new else r) (store st)"
    if "issue \<in> set (store st)" and "distinct (map url (store st))"
    using upsert_rows_item [OF that, of ?a] row by (simp add: activity_upsert_def)
  then show ?thesis
    using assms
    by (simp add: updateReminders_activity supabase_upsert_def logger_def new_calls_def)
      (simp add: activity_upsert_def)
qed

theorem activity_moves_deadline_witness:
  "getAssigneesActivityForIssue (scenario\<lparr>listEvents := \<lambda>_. Inr [[alice_event]]\<rparr>) issue1
     = Inr [alice_event]
   \<and> [alice_event] \<noteq> []
   \<and> (\<exists>st'. updateReminders (scenario\<lparr>listEvents := \<lambda>_. Inr [[alice_event]]\<rparr>) issue1 start
              = (Inr (), st')
         \<and> new_calls start st' =
             [Upsert \<lparr>ua_url = url1, ua_deadline = 5700000, ua_lastReminder = None,
                      ua_lastCheck = 5400000\<rparr>]
         \<and> store st' = [issue1\<lparr>deadline := 5700000, last_check := 5400000\<rparr>, issue2])"
proof -
  let ?c = "scenario\<lparr>listEvents := \<lambda>_. Inr [[alice_event]]\<rparr>"
  have a: "getAssigneesActivityForIssue ?c issue1 = Inr [alice_event]"
    by (simp add: getAssigneesActivityForIssue_def scenario_def example_parse_def issue1_def
        activity_filter_def assignee_found_def alice_event_def)
  from activity_moves_deadline [OF a, of start] a show ?thesis
    by (simp add: start_def scenario_def issue1_def issue2_def url1_def url2_def)
qed

text \<open>
  C3 (as amended). In a pass over the watched items, when the items before one have been
  evaluated without error and the evaluation of that one throws, \<^verbatim>\<open>updateTasks\<close> throws
  the same error in the state reached at the throw: whatever the remaining items are, none
  of them is evaluated in that pass.
\<close>

theorem failing_item_ends_pass:
  assumes "store st = before @ failing # remaining"
    and "updateTasks_loop ctx before st = (Inr (), st1)"
    and "updateReminders ctx failing st1 = (Inl e, st2)"
  shows "updateTasks ctx st = (Inl e, st2)"
proof -
  have "updateTasks_loop ctx (before @ failing # remaining) st
      = updateTasks_loop ctx (failing # remaining) st1"
    using assms(2) by (rule updateTasks_loop_append)
  also have "\<dots> = (Inl e, st2)"
    using assms(3) by simp
  finally show ?thesis
    using assms(1) by (simp add: updateTasks_def)
qed

theorem failing_item_ends_pass_witness:
  "store (start\<lparr>store := [issue2, issue1, issue3]\<rparr>) = [issue2] @ issue1 # [issue3]
   \<and> updateTasks_loop first_listing_fails [issue2] (start\<lparr>store := [issue2, issue1, issue3]\<rparr>) =
       (Inr (),
        \<lparr>ticks = 1,
         store = [issue2\<lparr>deadline := 5400000, last_check := 5400000\<rparr>, issue1, issue3],
         calls = [Upsert \<lparr>ua_url = url2, ua_deadline = 5400000, ua_lastReminder = None,
                          ua_lastCheck = 5400000\<rparr>],
         logs = [LogInfo (ActivityFound url2 0 5400000)]\<rparr>)
   \<and> updateTasks first_listing_fails (start\<lparr>store := [issue2, issue1, issue3]\<rparr>) =
       (Inl ListEventsFailed,
        \<lparr>ticks = 2,
         store = [issue2\<lparr>deadline := 5400000, last_check := 5400000\<rparr>, issue1, issue3],
         calls = [Upsert \<lparr>ua_url = url2, ua_deadline = 5400000, ua_lastReminder = None,
                          ua_lastCheck = 5400000\<rparr>],
         logs = [LogInfo (ActivityFound url2 0 5400000)]\<rparr>)"
proof -
  let ?st = "start\<lparr>store := [issue2, issue1, issue3]\<rparr>"
  let ?st1 = "\<lparr>ticks = 1,
         store = [issue2\<lparr>deadline := 5400000, last_check := 5400000\<rparr>, issue1, issue3],
         calls = [Upsert \<lparr>ua_url = url2, ua_deadline = 5400000, ua_lastReminder = None,
                          ua_lastCheck = 5400000\<rparr>],
         logs = [LogInfo (ActivityFound url2 0 5400000)]\<rparr>"
  have h1: "store ?st = [issue2] @ issue1 # [issue3]" by code_simp
  have h2: "updateTasks_loop first_listing_fails [issue2] ?st = (Inr (), ?st1)" by code_simp
  have h3: "updateReminders first_listing_fails issue1 ?st1
      = (Inl ListEventsFailed, ?st1\<lparr>ticks := 2\<rparr>)" by code_simp
  have "?st1\<lparr>ticks := 2\<rparr> = \<lparr>ticks = 2,
         store = [issue2\<lparr>deadline := 5400000, last_check := 5400000\<rparr>, issue1, issue3],
         calls = [Upsert \<lparr>ua_url = url2, ua_deadline = 5400000, ua_lastReminder = None,
                          ua_lastCheck = 5400000\<rparr>],
         logs = [LogInfo (ActivityFound url2 0 5400000)]\<rparr>" by simp
  with failing_item_ends_pass [OF h1 h2 h3] h1 h2 show ?thesis
    by simp
qed

text \<open>C3 as stated fails: the event listing of the first of two items throws. The pass ends
  with that error after one clock reading, without a call and without a log line, although
  the evaluation of the second item would have upserted a new deadline.\<close>

theorem error_aborts_batch:
  "store start = [issue1, issue2]
   \<and> updateReminders first_listing_fails issue1 start
       = (Inl ListEventsFailed, start\<lparr>ticks := 1\<rparr>)
   \<and> updateTasks first_listing_fails start = (Inl ListEventsFailed, start\<lparr>ticks := 1\<rparr>)
   \<and> new_calls start (snd (updateTasks first_listing_fails start)) = []
   \<and> new_logs start (snd (updateTasks first_listing_fails start)) = []
   \<and> new_calls (start\<lparr>ticks := 1\<rparr>)
        (snd (updateReminders first_listing_fails issue2 (start\<lparr>ticks := 1\<rparr>))) =
       [Upsert \<lparr>ua_url = url2, ua_deadline = 5400001, ua_lastReminder = None,
                ua_lastCheck = 5400001\<rparr>]"
  by code_simp

text \<open>
  C4 (as amended). With an empty activity signal, a disqualification threshold above 0 and
  the clock at or past both \<open>deadline + disqualifyThreshold\<close> and
  \<open>deadline + reminderThreshold\<close>, the evaluation is the unassignment: it runs
  \<^verbatim>\<open>removeIdleAssignees\<close> (and deletes the record when that returns true), and it dispatches
  no reminder.
\<close>

theorem disqualification_before_reminder:
  assumes "getAssigneesActivityForIssue ctx issue = Inr []"
    and "0 < unassignUserThreshold ctx"
    and "plus_minutes (deadline issue) (unassignUserThreshold ctx) \<le> clock ctx (ticks st)"
    and "plus_minutes (deadline issue) (sendRemindersThreshold ctx) \<le> clock ctx (ticks st)"
  shows "updateReminders ctx issue st =
       (case removeIdleAssignees ctx issue
               (logger (LogInfo (PassedDeadline (url issue))) (st\<lparr>ticks := Suc (ticks st)\<rparr>)) of
          (Inl e, s) \<Rightarrow> (Inl e, s)
        | (Inr removed, s) \<Rightarrow> (Inr (), if removed then supabase_delete (url issue) s else s))
     \<and> \<not> (\<exists>c \<in> set (new_calls st (snd (updateReminders ctx issue st))). is_reminder c)"
proof -
  have eq: "updateReminders ctx issue st
      = unassignUserFromIssue ctx issue (st\<lparr>ticks := Suc (ticks st)\<rparr>)"
    using assms(1,3) by (simp add: updateReminders_idle)
  obtain r s where e: "updateReminders ctx issue st = (r, s)"
    by (cases "updateReminders ctx issue st")
  from updateReminders_outcomes [OF e] assms(3) e
  have "\<not> (\<exists>c \<in> set (new_calls st (snd (updateReminders ctx issue st))). is_reminder c)"
    by (elim exE conjE disjE) auto
  with eq assms(2) show ?thesis
    by (simp add: unassignUserFromIssue_def)
qed

theorem disqualification_before_reminder_witness:
  "getAssigneesActivityForIssue (scenario\<lparr>clock := \<lambda>n. 9000000 + int n\<rparr>) issue1 = Inr []
   \<and> 0 < unassignUserThreshold (scenario\<lparr>clock := \<lambda>n. 9000000 + int n\<rparr>)
   \<and> plus_minutes (deadline issue1) (unassignUserThreshold (scenario\<lparr>clock := \<lambda>n. 9000000 + int n\<rparr>))
        \<le> clock (scenario\<lparr>clock := \<lambda>n. 9000000 + int n\<rparr>) (ticks start)
   \<and> plus_minutes (deadline issue1) (sendRemindersThreshold (scenario\<lparr>clock := \<lambda>n. 9000000 + int n\<rparr>))
        \<le> clock (scenario\<lparr>clock := \<lambda>n. 9000000 + int n\<rparr>) (ticks start)
   \<and> new_calls start (snd (updateReminders (scenario\<lparr>clock := \<lambda>n. 9000000 + int n\<rparr>) issue1 start))
       = [RemoveAssignees loc1 [''alice''], Delete url1]"
proof -
  let ?c = "scenario\<lparr>clock := \<lambda>n. 9000000 + int n\<rparr>"
  have h1: "getAssigneesActivityForIssue ?c issue1 = Inr []" by code_simp
  have h2: "0 < unassignUserThreshold ?c" by code_simp
  have h3: "plus_minutes (deadline issue1) (unassignUserThreshold ?c) \<le> clock ?c (ticks start)"
    by code_simp
  have h4: "plus_minutes (deadline issue1) (sendRemindersThreshold ?c) \<le> clock ?c (ticks start)"
    by code_simp
  have e: "new_calls start (snd (updateReminders ?c issue1 start))
       = [RemoveAssignees loc1 [''alice''], Delete url1]" by code_simp
  from disqualification_before_reminder [OF h1 h2 h3 h4] h1 h2 h3 h4 e show ?thesis
    by blast
qed

text \<open>C4 as stated fails when the disqualification threshold is 0: the clock is past both
  instants, the issue has an assignee that could be removed, and the evaluation only logs
  that the threshold is \<open>\<le> 0\<close>.\<close>

theorem past_both_without_unassignment:
  "getAssigneesActivityForIssue disqualify_zero_past_both issue1 = Inr []
   \<and> plus_minutes (deadline issue1) (unassignUserThreshold disqualify_zero_past_both)
        \<le> clock disqualify_zero_past_both (ticks start)
   \<and> plus_minutes (deadline issue1) (sendRemindersThreshold disqualify_zero_past_both)
        \<le> clock disqualify_zero_past_both (ticks start)
   \<and> resolved_issue disqualify_zero_past_both loc1 = Some \<lparr>assignees = Some [Some ''alice'']\<rparr>
   \<and> removeAssignees disqualify_zero_past_both loc1 [''alice''] = None
   \<and> updateReminders disqualify_zero_past_both issue1 start =
       (Inr (),
        \<lparr>ticks = 1, store = [issue1, issue2], calls = [],
         logs = [LogInfo UnassignThresholdDisabled]\<rparr>)"
  by code_simp

text \<open>
  C5 (as amended). For an item in the ReminderDue state (reminder instant \<open>\<le>\<close> now \<open><\<close>
  disqualification instant, reminder threshold above 0) without \<open>last_reminder\<close>, when the
  activity signal is empty, the assignee resolver finds at least one assignee and the comment
  call goes through: the evaluation posts exactly one comment and upserts
  \<open>lastReminder = lastCheck =\<close> the second clock reading; the store then holds a record of
  the item's url, every such record has that \<open>last_reminder\<close>, and an evaluation of such a
  record, in any context and state, posts no comment.
\<close>

theorem due_reminder_sent_once:
  assumes "getAssigneesActivityForIssue ctx issue = Inr []"
    and "parseGitHubUrl ctx (url issue) = Inr loc"
    and "\<not> no_assignees (resolved_issue ctx loc)"
    and "createComment ctx loc (reminder_body (assignee_logins (resolved_issue ctx loc))) = None"
    and "0 < sendRemindersThreshold ctx"
    and "last_reminder issue = None"
    and "plus_minutes (deadline issue) (sendRemindersThreshold ctx) \<le> clock ctx (ticks st)"
    and "clock ctx (ticks st) < plus_minutes (deadline issue) (unassignUserThreshold ctx)"
  shows "\<exists>st'. updateReminders ctx issue st = (Inr (), st')
     \<and> new_calls st st' =
         [CreateComment loc (reminder_body (assignee_logins (resolved_issue ctx loc))),
          Upsert \<lparr>ua_url = url issue, ua_deadline = deadline issue,
                  ua_lastReminder = Some (clock ctx (Suc (ticks st))),
                  ua_lastCheck = clock ctx (Suc (ticks st))\<rparr>]
     \<and> url issue \<in> set (map url (store st'))
     \<and> (\<forall>row \<in> set (store st'). url row = url issue \<longrightarrow>
           last_reminder row = Some (clock ctx (Suc (ticks st)))
           \<and> (\<forall>ctx2 st2.
                \<not> (\<exists>c \<in> set (new_calls st2 (snd (updateReminders ctx2 row st2))). is_reminder c)))"
proof -
  let ?st1 = "st\<lparr>ticks := Suc (ticks st)\<rparr>"
  let ?a = "reminder_upsert ctx issue ?st1"
  let ?st2 = "logger (LogInfo (ShouldSendReminder (url issue) True))
               (st\<lparr>ticks := Suc (Suc (ticks st))\<rparr>)"
  let ?body = "reminder_body (assignee_logins (resolved_issue ctx loc))"
  have a: "?a = \<lparr>ua_url = url issue, ua_deadline = deadline issue,
                 ua_lastReminder = Some (clock ctx (Suc (ticks st))),
                 ua_lastCheck = clock ctx (Suc (ticks st))\<rparr>"
    by (simp add: reminder_upsert_def)
  have rem: "remindAssignees ctx issue ?st2 =
      (Inr True,
       (case issues_get ctx loc of
          Inl _ \<Rightarrow> logger (LogError (CouldNotGetIssue (url issue))) ?st2
        | Inr _ \<Rightarrow> ?st2)\<lparr>calls := calls ?st2 @ [CreateComment loc ?body]\<rparr>)"
    using assms(2,3,4)
    by (simp add: remindAssignees_def getGithubIssue_ok logger_def split: sum.splits)
  obtain s where s: "remindAssignees ctx issue ?st2 = (Inr True, s)"
    and sc: "calls s = calls st @ [CreateComment loc ?body]" and ss: "store s = store st"
    using rem by (auto simp: logger_def split: sum.splits)
  have "updateReminders ctx issue st = remindAssigneesForIssue ctx issue ?st1"
    using assms(1,7,8) by (simp add: updateReminders_idle)
  also have "\<dots> = (Inr (), supabase_upsert ?a s)"
    using assms(5,6) s
    by (simp add: remindAssigneesForIssue_def dateTimeNow_def Let_def reminder_upsert_def)
  finally have run: "updateReminders ctx issue st = (Inr (), supabase_upsert ?a s)" .
  have calls: "new_calls st (supabase_upsert ?a s) = [CreateComment loc ?body, Upsert ?a]"
    using sc by (simp add: supabase_upsert_def new_calls_def)
  have store: "store (supabase_upsert ?a s) = upsert_rows ?a (store st)"
    using ss by (simp add: supabase_upsert_def)
  have here: "url issue \<in> set (map url (upsert_rows ?a (store st)))"
    using upsert_rows_has [of ?a "store st"] by (simp add: reminder_upsert_def)
  have rows: "last_reminder row = Some (clock ctx (Suc (ticks st)))
      \<and> (\<forall>ctx2 st2.
            \<not> (\<exists>c \<in> set (new_calls st2 (snd (updateReminders ctx2 row st2))). is_reminder c))"
    if "row \<in> set (upsert_rows ?a (store st))" and "url row = url issue" for row
  proof -
    from upsert_rows_written [OF that(1)] that(2)
    have lr: "last_reminder row = Some (clock ctx (Suc (ticks st)))"
      by (simp add: reminder_upsert_def)
    then have "last_reminder row \<noteq> None" by simp
    from reminded_item_not_reminded_again [OF this] lr show ?thesis by blast
  qed
  show ?thesis
    using run calls store here rows a by (intro exI [of _ "supabase_upsert ?a s"]) simp
qed

theorem due_reminder_sent_once_witness:
  "getAssigneesActivityForIssue scenario issue1 = Inr []
   \<and> parseGitHubUrl scenario (url issue1) = Inr loc1
   \<and> \<not> no_assignees (resolved_issue scenario loc1)
   \<and> createComment scenario loc1
        (reminder_body (assignee_logins (resolved_issue scenario loc1))) = None
   \<and> 0 < sendRemindersThreshold scenario
   \<and> last_reminder issue1 = None
   \<and> plus_minutes (deadline issue1) (sendRemindersThreshold scenario)
        \<le> clock scenario (ticks start)
   \<and> clock scenario (ticks start)
        < plus_minutes (deadline issue1) (unassignUserThreshold scenario)
   \<and> store (snd (updateReminders scenario issue1 start)) =
       [issue1\<lparr>last_check := 5400001, last_reminder := Some 5400001\<rparr>, issue2]
   \<and> new_calls (snd (updateReminders scenario issue1 start))
        (snd (updateReminders scenario
               (issue1\<lparr>last_check := 5400001, last_reminder := Some 5400001\<rparr>)
               (snd (updateReminders scenario issue1 start)))) = []"
proof -
  have h1: "getAssigneesActivityForIssue scenario issue1 = Inr []" by code_simp
  have h2: "parseGitHubUrl scenario (url issue1) = Inr loc1" by code_simp
  have h3: "\<not> no_assignees (resolved_issue scenario loc1)" by code_simp
  have h4: "createComment scenario loc1
        (reminder_body (assignee_logins (resolved_issue scenario loc1))) = None" by code_simp
  have h5: "0 < sendRemindersThreshold scenario" by code_simp
  have h6: "last_reminder issue1 = None" by code_simp
  have h7: "plus_minutes (deadline issue1) (sendRemindersThreshold scenario)
        \<le> clock scenario (ticks start)" by code_simp
  have h8: "clock scenario (ticks start)
        < plus_minutes (deadline issue1) (unassignUserThreshold scenario)" by code_simp
  have e1: "store (snd (updateReminders scenario issue1 start)) =
       [issue1\<lparr>last_check := 5400001, last_reminder := Some 5400001\<rparr>, issue2]" by code_simp
  have e2: "new_calls (snd (updateReminders scenario issue1 start))
        (snd (updateReminders scenario
               (issue1\<lparr>last_check := 5400001, last_reminder := Some 5400001\<rparr>)
               (snd (updateReminders scenario issue1 start)))) = []" by code_simp
  from due_reminder_sent_once [OF h1 h2 h3 h4 h5 h6 h7 h8]
    h1 h2 h3 h4 h5 h6 h7 h8 e1 e2
  show ?thesis by blast
qed

text \<open>C5 as stated fails: an item in the ReminderDue state without \<open>last_reminder\<close>, whose
  issue has no assignee. No comment is posted and nothing is written.\<close>

theorem due_reminder_not_sent:
  "getAssigneesActivityForIssue nobody_assigned issue1 = Inr []
   \<and> 0 < sendRemindersThreshold nobody_assigned
   \<and> last_reminder issue1 = None
   \<and> plus_minutes (deadline issue1) (sendRemindersThreshold nobody_assigned)
        \<le> clock nobody_assigned (ticks start)
   \<and> clock nobody_assigned (ticks start)
        < plus_minutes (deadline issue1) (unassignUserThreshold nobody_assigned)
   \<and> updateReminders nobody_assigned issue1 start =
       (Inr (),
        \<lparr>ticks = 2, store = [issue1, issue2], calls = [],
         logs = [LogInfo (ShouldSendReminder url1 True), LogWarn (MissingAssignees url1)]\<rparr>)"
  by code_simp

text \<open>
  C6 (as amended). When \<^verbatim>\<open>issues.get\<close> throws, \<^verbatim>\<open>getGithubIssue\<close> catches the error, logs it
  and returns null; \<^verbatim>\<open>remindAssignees\<close> and \<^verbatim>\<open>removeIdleAssignees\<close> then log the warning
  \<open>MissingAssignees\<close> and return false, as they do for an issue without assignees. With an
  empty activity signal the evaluation of the item ends without error, without a call and
  with the store as it was.
\<close>

theorem resolver_failure_becomes_no_assignees:
  assumes "parseGitHubUrl ctx (url issue) = Inr loc" and "issues_get ctx loc = Inl e"
  shows "getGithubIssue ctx issue st =
       (Inr None, logger (LogError (CouldNotGetIssue (url issue))) st)
     \<and> remindAssignees ctx issue st =
         (Inr False,
          logger (LogWarn (MissingAssignees (url issue)))
            (logger (LogError (CouldNotGetIssue (url issue))) st))
     \<and> removeIdleAssignees ctx issue st =
         (Inr False,
          logger (LogWarn (MissingAssignees (url issue)))
            (logger (LogError (CouldNotGetIssue (url issue))) st))
     \<and> (getAssigneesActivityForIssue ctx issue = Inr [] \<longrightarrow>
          (\<exists>st'. updateReminders ctx issue st = (Inr (), st')
             \<and> new_calls st st' = [] \<and> store st' = store st))"
proof -
  have g: "getGithubIssue ctx issue s =
      (Inr None, logger (LogError (CouldNotGetIssue (url issue))) s)" for s
    using assms by (simp add: getGithubIssue_def)
  have rem: "remindAssignees ctx issue s =
      (Inr False,
       logger (LogWarn (MissingAssignees (url issue)))
         (logger (LogError (CouldNotGetIssue (url issue))) s))" for s
    using assms(1) by (simp add: remindAssignees_def g)
  have rmv: "removeIdleAssignees ctx issue s =
      (Inr False,
       logger (LogWarn (MissingAssignees (url issue)))
         (logger (LogError (CouldNotGetIssue (url issue))) s))" for s
    using assms(1) by (simp add: removeIdleAssignees_def g)
  have "\<exists>st'. updateReminders ctx issue st = (Inr (), st')
      \<and> new_calls st st' = [] \<and> store st' = store st"
    if "getAssigneesActivityForIssue ctx issue = Inr []"
    by (simp add: updateReminders_idle [OF that] unassignUserFromIssue_def
        remindAssigneesForIssue_def dateTimeNow_def Let_def rem rmv logger_def new_calls_def)
  with g rem rmv show ?thesis by blast
qed

theorem resolver_failure_becomes_no_assignees_witness:
  "parseGitHubUrl resolver_fails (url issue1) = Inr loc1
   \<and> issues_get resolver_fails loc1 = Inl IssueGetFailed
   \<and> getAssigneesActivityForIssue resolver_fails issue1 = Inr []
   \<and> remindAssignees resolver_fails issue1 start =
       (Inr False,
        start\<lparr>logs := [LogError (CouldNotGetIssue url1), LogWarn (MissingAssignees url1)]\<rparr>)"
proof -
  have h1: "parseGitHubUrl resolver_fails (url issue1) = Inr loc1" by code_simp
  have h2: "issues_get resolver_fails loc1 = Inl IssueGetFailed" by code_simp
  have h3: "getAssigneesActivityForIssue resolver_fails issue1 = Inr []" by code_simp
  have e: "remindAssignees resolver_fails issue1 start =
       (Inr False,
        start\<lparr>logs := [LogError (CouldNotGetIssue url1), LogWarn (MissingAssignees url1)]\<rparr>)"
    by code_simp
  from resolver_failure_becomes_no_assignees [OF h1 h2, of start] h1 h2 h3 e
  show ?thesis by blast
qed

text \<open>C6 as stated fails: the resolver throws for an item whose reminder is due. The
  evaluation returns normally; its log is the one of an issue without assignees with the
  error line added.\<close>

theorem resolver_error_swallowed:
  "parseGitHubUrl resolver_fails (url issue1) = Inr loc1
   \<and> issues_get resolver_fails loc1 = Inl IssueGetFailed
   \<and> updateReminders resolver_fails issue1 start =
       (Inr (),
        \<lparr>ticks = 2, store = [issue1, issue2], calls = [],
         logs = [LogInfo (ShouldSendReminder url1 True), LogError (CouldNotGetIssue url1),
                 LogWarn (MissingAssignees url1)]\<rparr>)
   \<and> updateReminders nobody_assigned issue1 start =
       (Inr (),
        \<lparr>ticks = 2, store = [issue1, issue2], calls = [],
         logs = [LogInfo (ShouldSendReminder url1 True), LogWarn (MissingAssignees url1)]\<rparr>)"
  by code_simp

text \<open>
  C7. Whenever an evaluation dispatches a reminder (a \<^verbatim>\<open>createComment\<close> call goes through),
  it ends without error and its calls are that comment followed by one upsert of
  \<open>lastReminder = now\<close>, \<open>lastCheck = now\<close> and \<open>deadline =\<close> the deadline of the item, where \<open>now\<close>
  is the clock reading taken in \<^verbatim>\<open>remindAssigneesForIssue\<close> (the second reading of the
  evaluation). In a store with one record per url that holds the item, the item's record
  becomes the item with \<open>last_check\<close> and \<open>last_reminder\<close> changed, so its deadline is the
  previous one, and every other record is kept.
\<close>

theorem reminder_success_persists:
  assumes "updateReminders ctx issue st = (r, st')"
    and "\<exists>c \<in> set (new_calls st st'). is_reminder c"
  shows "r = Inr ()
     \<and> (\<exists>loc body. new_calls st st' =
           [CreateComment loc body,
            Upsert \<lparr>ua_url = url issue, ua_deadline = deadline issue,
                    ua_lastReminder = Some (clock ctx (Suc (ticks st))),
                    ua_lastCheck = clock ctx (Suc (ticks st))\<rparr>])
     \<and> (issue \<in> set (store st) \<and> distinct (map url (store st)) \<longrightarrow>
          store st' =
            map (\<lambda>x. if x = issue
                      then issue\<lparr>last_check := clock ctx (Suc (ticks st)),
                                 last_reminder := Some (clock ctx (Suc (ticks st)))\<rparr>
                      else x) (store st))"
proof -
  let ?a = "reminder_upsert ctx issue (st\<lparr>ticks := Suc (ticks st)\<rparr>)"
  let ?new = "issue\<lparr>last_check := clock ctx (Suc (ticks st)),
                     last_reminder := Some (clock ctx (Suc (ticks st)))\<rparr>"
  have a: "?a = \<lparr>ua_url = url issue, ua_deadline = deadline issue,
                 ua_lastReminder = Some (clock ctx (Suc (ticks st))),
                 ua_lastCheck = clock ctx (Suc (ticks st))\<rparr>"
    by (simp add: reminder_upsert_def)
  have row: "upsert_row ?a issue = ?new"
    by (simp add: upsert_row_def reminder_upsert_def)
  have st: "upsert_rows ?a (store st) = map (\<lambda>x. if x = issue then ?new else x) (store st)"
    if "issue \<in> set (store st)" and "distinct (map url (store st))"
    using upsert_rows_item [OF that, of ?a] row by (simp add: reminder_upsert_def)
  from updateReminders_outcomes [OF assms(1)] assms(2) 
  have "r = Inr () \<and> (\<exists>loc body. new_calls st st' = [CreateComment loc body, Upsert ?a])
      \<and> store st' = upsert_rows ?a (store st)"
    by (elim exE conjE disjE) auto
  with st a show ?thesis by auto
qed

theorem reminder_success_persists_witness:
  "updateReminders scenario issue1 start =
     (Inr (),
      \<lparr>ticks = 2,
       store = [issue1\<lparr>last_check := 5400001, last_reminder := Some 5400001\<rparr>, issue2],
       calls = [CreateComment loc1
                  ''@alice, this task has been idle for a while. Please provide an update.'',
                Upsert \<lparr>ua_url = url1, ua_deadline = deadline issue1,
                        ua_lastReminder = Some 5400001, ua_lastCheck = 5400001\<rparr>],
       logs = [LogInfo (ShouldSendReminder url1 True)]\<rparr>)
   \<and> issue1 \<in> set (store start) \<and> distinct (map url (store start))
   \<and> clock scenario (Suc (ticks start)) = 5400001"
proof -
  let ?s = "\<lparr>ticks = 2,
       store = [issue1\<lparr>last_check := 5400001, last_reminder := Some 5400001\<rparr>, issue2],
       calls = [CreateComment loc1
                  ''@alice, this task has been idle for a while. Please provide an update.'',
                Upsert \<lparr>ua_url = url1, ua_deadline = deadline issue1,
                        ua_lastReminder = Some 5400001, ua_lastCheck = 5400001\<rparr>],
       logs = [LogInfo (ShouldSendReminder url1 True)]\<rparr>"
  have e: "updateReminders scenario issue1 start = (Inr (), ?s)"
    by code_simp
  have h: "\<exists>c \<in> set (new_calls start ?s). is_reminder c"
    by code_simp
  have w: "issue1 \<in> set (store start) \<and> distinct (map url (store start))
      \<and> clock scenario (Suc (ticks start)) = 5400001"
    by code_simp
  from reminder_success_persists [OF e h] e w show ?thesis
    by blast
qed

text \<open>
  C8. In every evaluation the store's delete is called exactly when a \<^verbatim>\<open>removeAssignees\<close>
  call went through, and only for the url of the item; then the record is gone from the store,
  and otherwise every url of the store is still there. Whenever an executor has found no
  assignees (it logs the warning \<open>MissingAssignees\<close>), the evaluation makes no call at all,
  neither upsert nor delete, and the store is as it was.
\<close>

theorem deleted_iff_unassigned:
  assumes "updateReminders ctx issue st = (r, st')"
  shows "((\<exists>u. Delete u \<in> set (new_calls st st'))
            = (\<exists>c \<in> set (new_calls st st'). is_unassignment c))
     \<and> (\<forall>u. Delete u \<in> set (new_calls st st') \<longrightarrow> u = url issue)
     \<and> (if \<exists>c \<in> set (new_calls st st'). is_unassignment c
         then store st' = delete_rows (url issue) (store st)
              \<and> url issue \<notin> set (map url (store st'))
         else set (map url (store st)) \<subseteq> set (map url (store st')))
     \<and> (LogWarn (MissingAssignees (url issue)) \<in> set (new_logs st st') \<longrightarrow>
          new_calls st st' = [] \<and> store st' = store st)"
  using updateReminders_outcomes [OF assms]
  by (elim exE conjE disjE) (auto simp: set_delete_rows upsert_rows_retains_row)

theorem deleted_iff_unassigned_witness:
  "updateReminders (scenario\<lparr>clock := \<lambda>n. 9000000 + int n\<rparr>) issue1 start =
     (Inr (),
      \<lparr>ticks = 1, store = [issue2],
       calls = [RemoveAssignees loc1 [''alice''], Delete url1],
       logs = [LogInfo (PassedDeadline url1)]\<rparr>)
   \<and> updateReminders
       (scenario\<lparr>clock := \<lambda>n. 9000000 + int n, issues_get := \<lambda>_. Inr \<lparr>assignees = Some []\<rparr>\<rparr>)
       issue1 start =
     (Inr (),
      \<lparr>ticks = 1, store = [issue1, issue2], calls = [],
       logs = [LogInfo (PassedDeadline url1), LogWarn (MissingAssignees url1)]\<rparr>)
   \<and> updateReminders (scenario\<lparr>issues_get := \<lambda>_. Inr \<lparr>assignees = None\<rparr>\<rparr>) issue1 start =
     (Inr (),
      \<lparr>ticks = 2, store = [issue1, issue2], calls = [],
       logs = [LogInfo (ShouldSendReminder url1 True), LogWarn (MissingAssignees url1)]\<rparr>)"
proof -
  let ?c1 = "scenario\<lparr>clock := \<lambda>n. 9000000 + int n\<rparr>"
  let ?s1 = "\<lparr>ticks = 1, store = [issue2],
       calls = [RemoveAssignees loc1 [''alice''], Delete url1],
       logs = [LogInfo (PassedDeadline url1)]\<rparr>"
  let ?c2 = "scenario\<lparr>clock := \<lambda>n. 9000000 + int n,
                       issues_get := \<lambda>_. Inr \<lparr>assignees = Some []\<rparr>\<rparr>"
  let ?s2 = "\<lparr>ticks = 1, store = [issue1, issue2], calls = [],
       logs = [LogInfo (PassedDeadline url1), LogWarn (MissingAssignees url1)]\<rparr>"
  let ?c3 = "scenario\<lparr>issues_get := \<lambda>_. Inr \<lparr>assignees = None\<rparr>\<rparr>"
  let ?s3 = "\<lparr>ticks = 2, store = [issue1, issue2], calls = [],
       logs = [LogInfo (ShouldSendReminder url1 True), LogWarn (MissingAssignees url1)]\<rparr>"
  have e1: "updateReminders ?c1 issue1 start = (Inr (), ?s1)"
    by code_simp
  have e2: "updateReminders ?c2 issue1 start = (Inr (), ?s2)"
    by code_simp
  have e3: "updateReminders ?c3 issue1 start = (Inr (), ?s3)"
    by code_simp
  from deleted_iff_unassigned [OF e1] deleted_iff_unassigned [OF e2]
    deleted_iff_unassigned [OF e3] e1 e2 e3
  show ?thesis by blast
qed

text \<open>
  C9. The claim is not what the code does. The filter compares the actor of an event with
  \<^verbatim>\<open>context.payload.issue?.assignees\<close>, one list for every watched item of the pass, and not
  with the assignees of the watched item, which the executors resolve with
  \<^verbatim>\<open>getGithubIssue\<close>. When the watched issue is assigned to alice and the payload's issue to
  bob, alice's event after \<open>last_check\<close> is left out of the signal and bob's is in it. When
  the payload has no issue, the signal is empty although alice has been active since the last
  check, and past the disqualification instant the evaluation removes her and deletes the
  record.
\<close>

theorem assigned_actor_not_in_payload:
  "resolved_issue payload_of_bob loc1 = Some \<lparr>assignees = Some [Some ''alice'']\<rparr>
   \<and> payload_assignees payload_of_bob = Some [Some ''bob'']
   \<and> listEvents payload_of_bob loc1 = Inr [[alice_event, bob_event]]
   \<and> actor_login alice_event = ''alice''
   \<and> last_check issue1 \<le> created_at alice_event
   \<and> getAssigneesActivityForIssue payload_of_bob issue1 = Inr [bob_event]
   \<and> resolved_issue payload_without_issue loc1 = Some \<lparr>assignees = Some [Some ''alice'']\<rparr>
   \<and> payload_assignees payload_without_issue = None
   \<and> listEvents payload_without_issue loc1 = Inr [[alice_event]]
   \<and> getAssigneesActivityForIssue payload_without_issue issue1 = Inr []
   \<and> updateReminders payload_without_issue issue1 start =
       (Inr (),
        \<lparr>ticks = 1, store = [issue2],
         calls = [RemoveAssignees loc1 [''alice''], Delete url1],
         logs = [LogInfo (PassedDeadline url1)]\<rparr>)"
  by code_simp

text \<open>
  C10. In the branch taken when there is activity, the evaluation makes one call, an upsert
  whose object has the keys url, deadline and lastCheck and no lastReminder. On a store that
  holds a record of the item's url, the urls and the \<open>last_reminder\<close> of every record are
  what they were.
\<close>

theorem activity_upsert_leaves_lastReminder:
  assumes "getAssigneesActivityForIssue ctx issue = Inr activity" and "activity \<noteq> []"
  shows "\<exists>st' a. updateReminders ctx issue st = (Inr (), st')
     \<and> new_calls st st' = [Upsert a]
     \<and> written_fields a = [''url'', ''deadline'', ''lastCheck'']
     \<and> ua_lastReminder a = None
     \<and> store st' = upsert_rows a (store st)
     \<and> (url issue \<in> set (map url (store st)) \<longrightarrow>
          map url (store st') = map url (store st)
          \<and> map last_reminder (store st') = map last_reminder (store st))"
proof -
  let ?a = "activity_upsert ctx issue st"
  have none: "ua_lastReminder ?a = None" and u: "ua_url ?a = url issue"
    by (simp_all add: activity_upsert_def)
  have "map url (upsert_rows ?a (store st)) = map url (store st)
      \<and> map last_reminder (upsert_rows ?a (store st)) = map last_reminder (store st)"
    if "url issue \<in> set (map url (store st))"
    using that upsert_rows_urls [of ?a "store st"]
      upsert_rows_keep_reminder [OF none, of "store st"] u by simp
  moreover have "written_fields ?a = [''url'', ''deadline'', ''lastCheck'']"
    by (simp add: written_fields_def none)
  ultimately show ?thesis
    using assms none
    by (simp add: updateReminders_activity supabase_upsert_def logger_def new_calls_def)
qed

theorem activity_upsert_leaves_lastReminder_witness:
  "getAssigneesActivityForIssue (scenario\<lparr>listEvents := \<lambda>_. Inr [[alice_event]]\<rparr>)
       (issue1\<lparr>last_reminder := Some 4000000\<rparr>) = Inr [alice_event]
   \<and> [alice_event] \<noteq> []
   \<and> (\<exists>st' a. updateReminders (scenario\<lparr>listEvents := \<lambda>_. Inr [[alice_event]]\<rparr>)
                  (issue1\<lparr>last_reminder := Some 4000000\<rparr>)
                  (start\<lparr>store := [issue1\<lparr>last_reminder := Some 4000000\<rparr>]\<rparr>) = (Inr (), st')
         \<and> new_calls (start\<lparr>store := [issue1\<lparr>last_reminder := Some 4000000\<rparr>]\<rparr>) st' = [Upsert a]
         \<and> written_fields a = [''url'', ''deadline'', ''lastCheck'']
         \<and> ua_lastReminder a = None
         \<and> store st' = upsert_rows a [issue1\<lparr>last_reminder := Some 4000000\<rparr>]
         \<and> map url (store st') = [url1]
         \<and> map last_reminder (store st') = [Some 4000000])"
proof -
  let ?c = "scenario\<lparr>listEvents := \<lambda>_. Inr [[alice_event]]\<rparr>"
  let ?i = "issue1\<lparr>last_reminder := Some 4000000\<rparr>"
  have a: "getAssigneesActivityForIssue ?c ?i = Inr [alice_event]"
    by (simp add: getAssigneesActivityForIssue_def scenario_def example_parse_def issue1_def
        activity_filter_def assignee_found_def alice_event_def)
  from activity_upsert_leaves_lastReminder [OF a, of "start\<lparr>store := [?i]\<rparr>"] a show ?thesis
    by (simp add: start_def issue1_def)
qed

end
